theory Spec2Isabelle
  imports Main "HOL-Library.Word" "HOL-Library.Sublist"
begin

section \<open>The JIT profiler of jitprof.cpp\<close>

text \<open>
  A shallow embedding of \<^verbatim>\<open>src/jitprof.cpp\<close>: the resolution of the profiling flags
  of a function, the two instrumentation passes, the profile store and its dump.
  The LLVM objects the code works on (metadata, constants, instructions, basic
  blocks, functions) are modelled as far as the code reads or writes them.
  Assertions (\<^verbatim>\<open>assert\<close>, a failing \<^verbatim>\<open>cast<>\<close>), out-of-range indexing and
  the dereference of a null pointer are branches of the model that return an error.
\<close>

subsection \<open>Errors\<close>

datatype error =
    AssertionFailed
  | BadCast
  | OperandOutOfRange
  | NullDereference
  | IndexOutOfRange

definition and_then :: "error + 'a \<Rightarrow> ('a \<Rightarrow> error + 'b) \<Rightarrow> error + 'b" where
  "and_then m f = (case m of Inl e \<Rightarrow> Inl e | Inr x \<Rightarrow> f x)"

subsection \<open>Counters, constants and metadata\<close>

type_synonym u64 = "64 word"
type_synonym u32 = "32 word"

text \<open>
  The instrumented code holds the raw address of a counter field of a profile
  (\<^verbatim>\<open>(uint64_t)&Prof.CallCount\<close> and the like). A profile is never moved, so an
  address is modelled by the field it points to: the name the profile is stored
  under and the field. For the two allocation records the boolean says whether it
  is \<^verbatim>\<open>Preopt\<close>; for a branch record the number is its slot in \<^verbatim>\<open>BranchProfiles\<close>.
\<close>

datatype counter =
    CallCountCell string
  | AllocSizeCell string bool
  | AllocCountCell string bool
  | BranchTakenCell string nat
  | BranchTotalCell string nat

text \<open>
  Constants. \<open>ConstantInt b v\<close> is the integer constant of \<open>b\<close> bits whose
  zero-extended value is \<open>v\<close>; \<open>CounterAddr c\<close> is the 64-bit integer constant
  holding the address of the counter \<open>c\<close>; \<open>IntToPtr\<close> is
  \<^verbatim>\<open>ConstantExpr::getIntToPtr\<close>.
\<close>

datatype llconst =
    ConstantInt nat u64
  | CounterAddr counter
  | IntToPtr llconst
  | OtherConstant nat

datatype metadata =
    ConstantAsMetadata llconst
  | OtherMetadata nat

datatype mdnode =
    MDTuple "metadata list"
  | OtherMDNode nat

subsection \<open>Instructions, blocks and functions\<close>

text \<open>
  A value is a constant, an instruction (its result), or a value the original code
  defines (an argument, the result of an instruction that is not modelled further):
  \<open>Local b n\<close>, of \<open>b\<close> bits when it is an integer. \<open>ZExtInst\<close> and \<open>CastInst\<close>
  extend or truncate to 64 bits, the only target type the code asks for.
  A call is direct (\<^verbatim>\<open>getCalledFunction()\<close> gives the function, here its name) or
  through a pointer value.
\<close>

datatype val =
    Const llconst
  | Local nat nat
  | InstVal inst
and inst =
    AtomicRMWAdd val val
  | ICmpEQ val val
  | ZExtInst val
  | CastInst val
  | CallInst callee "val list"
  | OtherInst nat
and callee =
    DirectCallee string
  | IndirectCallee val

text \<open>Blocks are referred to by label; a branch names the labels of its successors.\<close>

datatype terminator =
    BranchInst_uncond nat
  | BranchInst_cond val nat nat
  | OtherTerminator nat

text \<open>
  A basic block: its instructions before the terminator, the terminator, and the
  branch weights (\<^verbatim>\<open>MD_prof\<close>) attached to the terminator, if any.
  \<^verbatim>\<open>MDBuilder::createBranchWeights\<close> takes two \<^verbatim>\<open>uint32_t\<close>.
\<close>

record basic_block =
  bb_label :: nat
  bb_insts :: "inst list"
  bb_term :: terminator
  bb_weights :: "(u32 \<times> u32) option"

text \<open>
  A function: its name, the metadata \<^verbatim>\<open>julia.prof\<close> and \<^verbatim>\<open>julia.prof.reporter\<close>,
  the function entry count (\<^verbatim>\<open>MD_prof\<close> on the function) and its blocks, the
  entry block first.
\<close>

record func =
  fn_name :: string
  julia_prof :: "mdnode option"
  julia_prof_reporter :: "mdnode option"
  fn_entry_count :: "u64 option"
  fn_blocks :: "basic_block list"

definition bb_size :: "basic_block \<Rightarrow> nat" where
  "bb_size BB = Suc (length (bb_insts BB))"

subsection \<open>Profiling flags\<close>

text \<open>
  Modelled from the spec: the declaration of \<^verbatim>\<open>struct ProfilingFlags\<close> is in
  \<^verbatim>\<open>jitprof.h\<close>, which is not among the sources. The brace initialisers of
  \<^verbatim>\<open>fromFunction\<close> and \<^verbatim>\<open>fromMDNode\<close> fill the fields in declaration order; the
  spec gives that order as allocations, branches, calls, apply-PGO, which is also
  the order in which \<^verbatim>\<open>toMDNode\<close> writes the fields by name.
\<close>

record ProfilingFlags =
  ProfileAllocations :: bool
  ProfileBranches :: bool
  ProfileCalls :: bool
  ApplyPGO :: bool

text \<open>The three command line switches, read by \<^verbatim>\<open>fromFunction\<close>.\<close>

record switches =
  ForceProfileAllocations :: bool
  ForceProfileCalls :: bool
  ForceProfileBranches :: bool

text \<open>
  \<^verbatim>\<open>extractProfNum\<close>: operand \<open>Idx\<close> of the tuple, which must be a constant
  (\<^verbatim>\<open>cast<ConstantAsMetadata>\<close>) that is an integer (\<^verbatim>\<open>cast<ConstantInt>\<close>).
  The result is the integer constant: its width and its zero-extended value.
\<close>

definition extractProfNum :: "metadata list \<Rightarrow> nat \<Rightarrow> error + (nat \<times> u64)" where
  "extractProfNum MD Idx =
     (if Idx < length MD then
        (case MD ! Idx of
           ConstantAsMetadata MDV \<Rightarrow>
             (case MDV of ConstantInt b v \<Rightarrow> Inr (b, v) | _ \<Rightarrow> Inl BadCast)
         | _ \<Rightarrow> Inl BadCast)
      else Inl OperandOutOfRange)"

definition getZExtValue :: "nat \<times> u64 \<Rightarrow> u64" where
  "getZExtValue c = snd c"

definition getSExtValue :: "nat \<times> u64 \<Rightarrow> u64" where
  "getSExtValue c =
     (if fst c = 0 \<or> 64 \<le> fst c then snd c else signed_take_bit (fst c - 1) (snd c))"

definition fromMDNode :: "mdnode \<Rightarrow> error + ProfilingFlags" where
  "fromMDNode MDN =
     (case MDN of
        MDTuple MD \<Rightarrow>
          if length MD \<noteq> 4 then Inl AssertionFailed
          else
            and_then (extractProfNum MD 0) (\<lambda>c0.
            and_then (extractProfNum MD 1) (\<lambda>c1.
            and_then (extractProfNum MD 2) (\<lambda>c2.
            and_then (extractProfNum MD 3) (\<lambda>c3.
              Inr \<lparr> ProfileAllocations = (getZExtValue c0 \<noteq> 0),
                    ProfileBranches = (getZExtValue c1 \<noteq> 0),
                    ProfileCalls = (getZExtValue c2 \<noteq> 0),
                    ApplyPGO = (getZExtValue c3 \<noteq> 0) \<rparr>))))
      | _ \<Rightarrow> Inl BadCast)"

definition fromFunction :: "switches \<Rightarrow> func \<Rightarrow> error + ProfilingFlags" where
  "fromFunction sw F =
     (let Flags = \<lparr> ProfileAllocations = False, ProfileBranches = False,
                    ProfileCalls = False, ApplyPGO = False \<rparr>
      in case julia_prof F of
           Some ProfMD \<Rightarrow> fromMDNode ProfMD
         | None \<Rightarrow>
             Inr (Flags
               \<lparr> ProfileAllocations := ProfileAllocations Flags \<or> ForceProfileAllocations sw,
                 ProfileBranches := ProfileBranches Flags \<or> ForceProfileBranches sw,
                 ProfileCalls := ProfileCalls Flags \<or> ForceProfileCalls sw \<rparr>))"

definition getBool :: "bool \<Rightarrow> llconst" where
  "getBool b = ConstantInt 1 (if b then 1 else 0)"

definition toMDNode :: "ProfilingFlags \<Rightarrow> mdnode" where
  "toMDNode Flags =
     MDTuple
       [ConstantAsMetadata (getBool (ProfileAllocations Flags)),
        ConstantAsMetadata (getBool (ProfileBranches Flags)),
        ConstantAsMetadata (getBool (ProfileCalls Flags)),
        ConstantAsMetadata (getBool (ApplyPGO Flags))]"

subsection \<open>The profile store\<close>

record AllocInfo =
  Size :: u64
  Count :: u64

record BranchInfo =
  Taken :: u64
  Total :: u64

text \<open>
  Modelled from the spec: \<^verbatim>\<open>struct FunctionProfile\<close> is declared in \<^verbatim>\<open>jitprof.h\<close>.
  The counters are 64-bit atomics; \<^verbatim>\<open>BranchProfiles\<close> is a sequence of optional
  (possibly null) \<^verbatim>\<open>BranchInfo\<close>; \<^verbatim>\<open>Loops\<close>, \<^verbatim>\<open>BBs\<close> and \<^verbatim>\<open>Insts\<close> are integers.
\<close>

record FunctionProfile =
  CallCount :: u64
  Preopt :: AllocInfo
  Postopt :: AllocInfo
  BranchProfiles :: "BranchInfo option list"
  Loops :: nat
  BBs :: nat
  Insts :: nat

text \<open>
  \<^verbatim>\<open>FunctionProfiles\<close> is a string map. It is modelled by the list of its entries
  in the order the map's iterator visits them; \<^verbatim>\<open>find\<close> is \<open>map_of\<close>. Where a new
  entry lands in that order depends on the hash of its name; the model puts it
  last, and nothing below depends on that.
\<close>

type_synonym store = "(string \<times> FunctionProfile) list"

definition getProfile :: "store \<Rightarrow> string \<Rightarrow> FunctionProfile option" where
  "getProfile FunctionProfiles Name = map_of FunctionProfiles Name"

definition getOrCreateProfile ::
  "store \<Rightarrow> string \<Rightarrow> (unit \<Rightarrow> FunctionProfile) \<Rightarrow> FunctionProfile \<times> store" where
  "getOrCreateProfile FunctionProfiles Name Create =
     (case map_of FunctionProfiles Name of
        Some Prof \<Rightarrow> (Prof, FunctionProfiles)
      | None \<Rightarrow> (let Prof = Create () in (Prof, FunctionProfiles @ [(Name, Prof)])))"

text \<open>Writing back through the reference \<^verbatim>\<open>getOrCreateProfile\<close> returned.\<close>

fun set_profile :: "store \<Rightarrow> string \<Rightarrow> FunctionProfile \<Rightarrow> store" where
  "set_profile [] Name Prof = []"
| "set_profile (KV # rest) Name Prof =
     (if fst KV = Name then (Name, Prof) # rest else KV # set_profile rest Name Prof)"

text \<open>
  Modelled from the spec: \<^verbatim>\<open>std::make_unique<FunctionProfile>()\<close> value-initialises
  the record of \<^verbatim>\<open>jitprof.h\<close>: every counter is zero and there is no branch slot.
\<close>

definition new_FunctionProfile :: FunctionProfile where
  "new_FunctionProfile =
     \<lparr> CallCount = 0,
       Preopt = \<lparr> Size = 0, Count = 0 \<rparr>,
       Postopt = \<lparr> Size = 0, Count = 0 \<rparr>,
       BranchProfiles = [],
       Loops = 0, BBs = 0, Insts = 0 \<rparr>"

subsection \<open>Call instrumentation\<close>

definition i64 :: "u64 \<Rightarrow> val" where
  "i64 v = Const (ConstantInt 64 v)"

definition counter_ptr :: "counter \<Rightarrow> val" where
  "counter_ptr c = Const (IntToPtr (CounterAddr c))"

text \<open>
  New blocks get labels no block of the function has (in LLVM a block is its own
  identity; the labels stand for that).
\<close>

primrec max_label :: "basic_block list \<Rightarrow> nat" where
  "max_label [] = 0"
| "max_label (BB # rest) = max (bb_label BB) (max_label rest)"

definition fresh_label :: "func \<Rightarrow> nat" where
  "fresh_label F = Suc (max_label (fn_blocks F))"

text \<open>The loop of \<^verbatim>\<open>addCallInstrumentation\<close> over the operands from index 2 on.\<close>

fun reporter_args :: "metadata list \<Rightarrow> error + val list" where
  "reporter_args [] = Inr []"
| "reporter_args (Op # Ops) =
     (case Op of
        ConstantAsMetadata Arg \<Rightarrow>
          and_then (reporter_args Ops) (\<lambda>Args. Inr (Const Arg # Args))
      | _ \<Rightarrow> Inl BadCast)"

text \<open>
  \<^verbatim>\<open>addCallInstrumentation\<close>. The insertion point is the first instruction of the
  entry block. \<^verbatim>\<open>CreateAtomicRMW\<close> puts the atomic add there; its result is the
  value \<^verbatim>\<open>CallCount\<close> of the source. With a reporter annotation,
  \<^verbatim>\<open>CreateICmpEQ\<close> compares that value with operand 0 (both must have the same
  type, 64 bits), and \<^verbatim>\<open>SplitBlockAndInsertIfThen\<close> splits the entry block before
  the insertion point: the head keeps the identity of the entry block and ends in a
  conditional branch, with the weights given, to a new block (which ends in a branch
  to the tail) or to the tail, a new block that holds the instructions of the old
  entry block. The call of the reporter goes into the new block.
  \<open>Name\<close> is the name \<open>Prof\<close> is stored under.
\<close>

definition addCallInstrumentation :: "string \<Rightarrow> FunctionProfile \<Rightarrow> func \<Rightarrow> error + func" where
  "addCallInstrumentation Name Prof F =
     (case fn_blocks F of
        [] \<Rightarrow> Inl AssertionFailed
      | Entry # rest \<Rightarrow>
         (let CallPtr = counter_ptr (CallCountCell Name);
              CallCountI = AtomicRMWAdd CallPtr (i64 1)
          in case julia_prof_reporter F of
               None \<Rightarrow>
                 Inr (F\<lparr> fn_blocks := Entry\<lparr> bb_insts := CallCountI # bb_insts Entry \<rparr> # rest \<rparr>)
             | Some ReporterMDRaw \<Rightarrow>
                 (case ReporterMDRaw of
                    MDTuple ReporterMD \<Rightarrow>
                      if \<not> 2 \<le> length ReporterMD then Inl AssertionFailed
                      else
                        and_then (extractProfNum ReporterMD 0) (\<lambda>Limit.
                          if fst Limit \<noteq> 64 then Inl AssertionFailed
                          else
                            let Report = ICmpEQ (InstVal CallCountI) (Const (ConstantInt (fst Limit) (snd Limit)));
                                Weights = (1, ucast (getSExtValue Limit - CallCount Prof));
                                TailL = fresh_label F;
                                ThenL = Suc (fresh_label F)
                            in
                              and_then (reporter_args (drop 2 ReporterMD)) (\<lambda>Args.
                              and_then (extractProfNum ReporterMD 1) (\<lambda>Fn.
                                let ReporterF = Const (IntToPtr (ConstantInt (fst Fn) (snd Fn)));
                                    Head = \<lparr> bb_label = bb_label Entry,
                                             bb_insts = [CallCountI, Report],
                                             bb_term = BranchInst_cond (InstVal Report) ThenL TailL,
                                             bb_weights = Some Weights \<rparr>;
                                    ThenBlock = \<lparr> bb_label = ThenL,
                                                  bb_insts = [CallInst (IndirectCallee ReporterF) Args],
                                                  bb_term = BranchInst_uncond TailL,
                                                  bb_weights = None \<rparr>;
                                    Tail = Entry\<lparr> bb_label := TailL \<rparr>
                                in Inr (F\<lparr> fn_blocks := Head # ThenBlock # Tail # rest \<rparr>))))
                  | _ \<Rightarrow> Inl BadCast)))"

subsection \<open>Branch instrumentation\<close>

definition isa_Constant :: "val \<Rightarrow> bool" where
  "isa_Constant v = (case v of Const c \<Rightarrow> True | _ \<Rightarrow> False)"

text \<open>
  The loop of \<^verbatim>\<open>addBranchInstrumentation\<close> over the blocks, with the slots and the
  index \<^verbatim>\<open>BBidx\<close> as loop state. The \<^verbatim>\<open>continue\<close> of the source leaves the loop
  body before \<^verbatim>\<open>BBidx++\<close>: after a block that ends in an unconditional branch, or
  in a branch on a constant, the index is the same as before.
  The three instructions are inserted before the branch, that is, at the end of
  the instructions of the block.
\<close>

fun branch_loop ::
  "string \<Rightarrow> nat \<Rightarrow> BranchInfo option list \<Rightarrow> basic_block list
     \<Rightarrow> error + (BranchInfo option list \<times> basic_block list)" where
  "branch_loop Name BBidx BPs [] = Inr (BPs, [])"
| "branch_loop Name BBidx BPs (BB # rest) =
     (case bb_term BB of
        BranchInst_uncond t \<Rightarrow>
          and_then (branch_loop Name BBidx BPs rest) (\<lambda>r. Inr (fst r, BB # snd r))
      | BranchInst_cond Cond t f \<Rightarrow>
          if isa_Constant Cond then
            and_then (branch_loop Name BBidx BPs rest) (\<lambda>r. Inr (fst r, BB # snd r))
          else if \<not> BBidx < length BPs then Inl IndexOutOfRange
          else
            let BPs1 = (case BPs ! BBidx of
                          None \<Rightarrow> BPs[BBidx := Some \<lparr> Taken = 0, Total = 0 \<rparr>]
                        | Some BI \<Rightarrow> BPs);
                TotalI = AtomicRMWAdd (counter_ptr (BranchTotalCell Name BBidx)) (i64 1);
                CondZ = ZExtInst Cond;
                TakenI = AtomicRMWAdd (counter_ptr (BranchTakenCell Name BBidx)) (InstVal CondZ);
                BB1 = BB\<lparr> bb_insts := bb_insts BB @ [TotalI, CondZ, TakenI] \<rparr>
            in and_then (branch_loop Name (Suc BBidx) BPs1 rest) (\<lambda>r. Inr (fst r, BB1 # snd r))
      | OtherTerminator k \<Rightarrow>
          and_then (branch_loop Name (Suc BBidx) BPs rest) (\<lambda>r. Inr (fst r, BB # snd r)))"

definition addBranchInstrumentation ::
  "string \<Rightarrow> FunctionProfile \<Rightarrow> func \<Rightarrow> error + (FunctionProfile \<times> func)" where
  "addBranchInstrumentation Name Prof F =
     (let BPs0 = (if BranchProfiles Prof = [] then replicate (length (fn_blocks F)) None
                  else BranchProfiles Prof)
      in if length BPs0 \<noteq> length (fn_blocks F) then Inl AssertionFailed
         else
           and_then (branch_loop Name 0 BPs0 (fn_blocks F)) (\<lambda>r.
             Inr (Prof\<lparr> BranchProfiles := fst r \<rparr>, F\<lparr> fn_blocks := snd r \<rparr>)))"

subsection \<open>Applying the profile\<close>

text \<open>
  The loop of \<^verbatim>\<open>applyPGOInstrumentation\<close>: \<^verbatim>\<open>Prof.BranchProfiles[BBidx]\<close> is read
  for every block and dereferenced at once, with no test of the index and none of
  the pointer.
\<close>

fun pgo_loop :: "BranchInfo option list \<Rightarrow> nat \<Rightarrow> basic_block list \<Rightarrow> error + basic_block list" where
  "pgo_loop BPs BBidx [] = Inr []"
| "pgo_loop BPs BBidx (BB # rest) =
     (if \<not> BBidx < length BPs then Inl IndexOutOfRange
      else
        case BPs ! BBidx of
          None \<Rightarrow> Inl NullDereference
        | Some Branch \<Rightarrow>
            let BB1 = (if 0 < Total Branch
                       then BB\<lparr> bb_weights :=
                                 Some (ucast (Taken Branch), ucast (Total Branch - Taken Branch)) \<rparr>
                       else BB)
            in and_then (pgo_loop BPs (Suc BBidx) rest) (\<lambda>rest1. Inr (BB1 # rest1)))"

definition applyPGOInstrumentation :: "FunctionProfile \<Rightarrow> func \<Rightarrow> error + func" where
  "applyPGOInstrumentation Prof F =
     (let Calls = CallCount Prof
      in and_then (pgo_loop (BranchProfiles Prof) 0 (fn_blocks F)) (\<lambda>blocks.
           Inr (F\<lparr> fn_entry_count := Some Calls, fn_blocks := blocks \<rparr>)))"

subsection \<open>Allocation instrumentation\<close>

text \<open>
  \<^verbatim>\<open>CreateIntCast\<close> to 64 bits, unsigned: a value of that type is returned as it
  is, a constant is folded, and for any other value a cast instruction is inserted.
  The model knows the width of constants and of \<open>Local\<close> values; of the
  instructions, the atomic add and the two casts are of 64 bits here.
\<close>

definition is_i64 :: "val \<Rightarrow> bool" where
  "is_i64 v =
     (case v of
        Const c \<Rightarrow> (case c of ConstantInt b x \<Rightarrow> b = 64 | CounterAddr a \<Rightarrow> True | _ \<Rightarrow> False)
      | Local b n \<Rightarrow> b = 64
      | InstVal I \<Rightarrow>
          (case I of AtomicRMWAdd p x \<Rightarrow> True | ZExtInst x \<Rightarrow> True | CastInst x \<Rightarrow> True
                   | _ \<Rightarrow> False))"

definition CreateIntCast :: "val \<Rightarrow> inst list \<times> val" where
  "CreateIntCast v =
     (if is_i64 v then ([], v)
      else case v of
             Const c \<Rightarrow>
               (case c of ConstantInt b x \<Rightarrow> ([], Const (ConstantInt 64 x))
                        | _ \<Rightarrow> ([CastInst v], InstVal (CastInst v)))
           | _ \<Rightarrow> ([CastInst v], InstVal (CastInst v)))"

definition alloc_match :: "bool \<Rightarrow> string \<Rightarrow> bool" where
  "alloc_match IsPreopt CalledName =
     (if IsPreopt then CalledName = ''julia.gc_alloc_obj''
      else sublist ''jl_gc_pool_alloc'' CalledName \<or> sublist ''jl_gc_big_alloc'' CalledName)"

text \<open>One instruction of the inner loop: the instructions that stand in its place afterwards.\<close>

definition alloc_inst :: "string \<Rightarrow> bool \<Rightarrow> inst \<Rightarrow> error + inst list" where
  "alloc_inst Name IsPreopt I =
     (case I of
        CallInst Called Args \<Rightarrow>
          (case Called of
             DirectCallee CalledName \<Rightarrow>
               if alloc_match IsPreopt CalledName then
                 (if \<not> 1 < length Args then Inl OperandOutOfRange
                  else
                    let SizeV = CreateIntCast (Args ! 1)
                    in Inr (fst SizeV @
                            [AtomicRMWAdd (counter_ptr (AllocSizeCell Name IsPreopt)) (snd SizeV),
                             AtomicRMWAdd (counter_ptr (AllocCountCell Name IsPreopt)) (i64 1),
                             I]))
               else Inr [I]
           | IndirectCallee p \<Rightarrow> Inr [I])
      | _ \<Rightarrow> Inr [I])"

fun alloc_insts :: "string \<Rightarrow> bool \<Rightarrow> inst list \<Rightarrow> error + inst list" where
  "alloc_insts Name IsPreopt [] = Inr []"
| "alloc_insts Name IsPreopt (I # rest) =
     and_then (alloc_inst Name IsPreopt I) (\<lambda>Is.
     and_then (alloc_insts Name IsPreopt rest) (\<lambda>rest1. Inr (Is @ rest1)))"

fun alloc_blocks :: "string \<Rightarrow> bool \<Rightarrow> basic_block list \<Rightarrow> error + basic_block list" where
  "alloc_blocks Name IsPreopt [] = Inr []"
| "alloc_blocks Name IsPreopt (BB # rest) =
     and_then (alloc_insts Name IsPreopt (bb_insts BB)) (\<lambda>Is.
     and_then (alloc_blocks Name IsPreopt rest) (\<lambda>rest1. Inr (BB\<lparr> bb_insts := Is \<rparr> # rest1)))"

definition addAllocInstrumentation :: "string \<Rightarrow> func \<Rightarrow> bool \<Rightarrow> error + func" where
  "addAllocInstrumentation Name F IsPreopt =
     and_then (alloc_blocks Name IsPreopt (fn_blocks F)) (\<lambda>blocks. Inr (F\<lparr> fn_blocks := blocks \<rparr>))"

subsection \<open>The two passes\<close>

datatype PreservedAnalyses = PreservedAll | PreservedNone

text \<open>
  A pass is given the pointer \<^verbatim>\<open>JITProf\<close> (\<open>None\<close> when null, else the store behind
  it), the switches and the function. It returns what it reports as preserved, the
  function and the store as it leaves them.
\<close>

definition JITPostoptimizationProfiler_run ::
  "store option \<Rightarrow> switches \<Rightarrow> func \<Rightarrow> error + (PreservedAnalyses \<times> func \<times> store option)" where
  "JITPostoptimizationProfiler_run JITProf sw F =
     (case JITProf of
        None \<Rightarrow> Inr (PreservedAll, F, JITProf)
      | Some FunctionProfiles \<Rightarrow>
          and_then (fromFunction sw F) (\<lambda>Flags.
            if \<not> ProfileAllocations Flags \<and> \<not> ProfileCalls Flags then Inr (PreservedAll, F, JITProf)
            else
              case getProfile FunctionProfiles (fn_name F) of
                None \<Rightarrow> Inr (PreservedAll, F, JITProf)
              | Some Prof \<Rightarrow>
                  and_then (if ProfileCalls Flags then addCallInstrumentation (fn_name F) Prof F
                            else Inr F) (\<lambda>F1.
                  and_then (if ProfileAllocations Flags then addAllocInstrumentation (fn_name F) F1 False
                            else Inr F1) (\<lambda>F2.
                    Inr (PreservedNone, F2, JITProf)))))"

text \<open>
  The instruction count of the factory: \<^verbatim>\<open>std::accumulate\<close> from \<^verbatim>\<open>0u\<close>, so the
  sum is kept in an \<^verbatim>\<open>unsigned\<close>.
\<close>

definition count_insts :: "basic_block list \<Rightarrow> u32" where
  "count_insts blocks = foldl (\<lambda>Acc BB. Acc + of_nat (bb_size BB)) 0 blocks"

text \<open>
  The pre-optimisation pass. \<open>NumLoops\<close> is the number of loops the loop analysis
  of the function reports (\<^verbatim>\<open>getLoopsInPreorder().size()\<close>).
\<close>

definition JITPreoptimizationProfiler_run ::
  "store option \<Rightarrow> switches \<Rightarrow> nat \<Rightarrow> func \<Rightarrow> error + (PreservedAnalyses \<times> func \<times> store option)" where
  "JITPreoptimizationProfiler_run JITProf sw NumLoops F =
     (case JITProf of
        None \<Rightarrow> Inr (PreservedAll, F, JITProf)
      | Some FunctionProfiles \<Rightarrow>
          and_then (fromFunction sw F) (\<lambda>Flags.
            if \<not> ProfileBranches Flags \<and> \<not> ProfileAllocations Flags \<and> \<not> ApplyPGO Flags
            then Inr (PreservedAll, F, JITProf)
            else
              let PS = getOrCreateProfile FunctionProfiles (fn_name F)
                         (\<lambda>u. new_FunctionProfile
                                \<lparr> Loops := NumLoops,
                                  BBs := length (fn_blocks F),
                                  Insts := unat (count_insts (fn_blocks F)) \<rparr>)
              in
                and_then (if ProfileBranches Flags then addBranchInstrumentation (fn_name F) (fst PS) F
                          else Inr (fst PS, F)) (\<lambda>PF.
                and_then (if ProfileAllocations Flags then addAllocInstrumentation (fn_name F) (snd PF) True
                          else Inr (snd PF)) (\<lambda>F2.
                and_then (if ApplyPGO Flags then applyPGOInstrumentation (fst PF) F2
                          else Inr F2) (\<lambda>F3.
                  Inr (PreservedNone, F3, Some (set_profile (snd PS) (fn_name F) (fst PF))))))))"

subsection \<open>The dump\<close>

text \<open>
  \<^verbatim>\<open>raw_ostream\<close> writes an unsigned integer in decimal, and a string or a
  character as it is. The stream is modelled by the text written to it so far.
\<close>

fun write_unsigned :: "nat \<Rightarrow> string" where
  "write_unsigned N =
     (if N < 10 then [char_of (48 + N)]
      else write_unsigned (N div 10) @ [char_of (48 + N mod 10)])"

declare write_unsigned.simps [simp del]

definition write_u64 :: "u64 \<Rightarrow> string" where
  "write_u64 w = write_unsigned (unat w)"

text \<open>
  The inner loop of \<^verbatim>\<open>dump\<close> over the slots from \<^verbatim>\<open>Idx\<close> on, with the flag
  \<^verbatim>\<open>Comma\<close> and the stream as loop state.
\<close>

fun dump_branches :: "BranchInfo option list \<Rightarrow> nat \<Rightarrow> bool \<Rightarrow> string \<Rightarrow> bool \<times> string" where
  \<open>dump_branches [] Idx Comma OS = (Comma, OS)\<close>
| \<open>dump_branches (Branch # rest) Idx Comma OS =
     (case Branch of
        None \<Rightarrow> dump_branches rest (Suc Idx) Comma OS
      | Some B \<Rightarrow>
          dump_branches rest (Suc Idx) True
            ((if Comma then OS @ '','' else OS @ ''"Branches":['')
               @ ''{"Idx":'' @ write_unsigned Idx
               @ '',"Taken":'' @ write_u64 (Taken B)
               @ '',"Total":'' @ write_u64 (Total B) @ ''}''))\<close>

text \<open>The body of the outer loop for one entry \<^verbatim>\<open>KV\<close>, up to the closing brace.\<close>

definition dump_profile :: "string \<times> FunctionProfile \<Rightarrow> string \<Rightarrow> string" where
  \<open>dump_profile KV OS =
     (let OS1 = OS @ ''{'' @ ''"Name":"'' @ fst KV @ ''",'';
          OS2 = (if CallCount (snd KV) \<noteq> 0
                 then OS1 @ ''"Calls":'' @ write_u64 (CallCount (snd KV)) @ '',''
                 else OS1);
          OS3 = (if Count (Preopt (snd KV)) \<noteq> 0 \<or> Count (Postopt (snd KV)) \<noteq> 0
                 then OS2 @ ''"Allocs":[''
                        @ ''{"Size":'' @ write_u64 (Size (Preopt (snd KV)))
                        @ '',"Count":'' @ write_u64 (Count (Preopt (snd KV))) @ ''},''
                        @ ''{"Size":'' @ write_u64 (Size (Postopt (snd KV)))
                        @ '',"Count":'' @ write_u64 (Count (Postopt (snd KV))) @ ''}''
                        @ ''],''
                 else OS2);
          OS4 = (if BranchProfiles (snd KV) \<noteq> []
                 then (let r = dump_branches (BranchProfiles (snd KV)) 0 False OS3
                       in if fst r then snd r @ ''],'' else snd r)
                 else OS3);
          OS5 = (if Loops (snd KV) \<noteq> 0
                 then OS4 @ ''"Loops":'' @ write_unsigned (Loops (snd KV)) @ '',''
                 else OS4)
      in OS5 @ ''"BBs":'' @ write_unsigned (BBs (snd KV)) @ '',''
             @ ''"Insts":'' @ write_unsigned (Insts (snd KV)) @ ''}'')\<close>

text \<open>The outer loop, with the local \<^verbatim>\<open>Count\<close> and the stream as loop state.\<close>

fun dump_profiles :: "(string \<times> FunctionProfile) list \<Rightarrow> nat \<Rightarrow> string \<Rightarrow> string" where
  "dump_profiles [] Cnt OS = OS"
| "dump_profiles (KV # rest) Cnt OS =
     (let OS1 = dump_profile KV OS
      in dump_profiles rest (Cnt - 1) (if Cnt - 1 \<noteq> 0 then OS1 @ '','' else OS1))"

definition dump :: "store \<Rightarrow> string \<Rightarrow> string" where
  "dump FunctionProfiles OS =
     dump_profiles FunctionProfiles (length FunctionProfiles) (OS @ ''['') @ '']'' @ [CHR 0x0A]"

subsection \<open>The report as the interface describes it\<close>

text \<open>
  The report in the words of the specification: the objects of the profiles,
  separated by commas, between brackets; in each object the name, the calls when
  not zero, the two allocation records when one of the counts is not zero, the list
  of the populated slots when there is one, the loops when not zero, and always
  the blocks and the instructions.
\<close>

fun join :: "string \<Rightarrow> string list \<Rightarrow> string" where
  "join sep [] = []"
| "join sep [x] = x"
| "join sep (x # y # ys) = x @ sep @ join sep (y # ys)"

definition populated :: "BranchInfo option list \<Rightarrow> (nat \<times> BranchInfo) list" where
  "populated BPs = [(i, the (BPs ! i)). i \<leftarrow> [0..<length BPs], BPs ! i \<noteq> None]"

definition spec_Branch :: "nat \<times> BranchInfo \<Rightarrow> string" where
  \<open>spec_Branch ib =
     ''{"Idx":'' @ write_unsigned (fst ib) @ '',"Taken":'' @ write_u64 (Taken (snd ib))
       @ '',"Total":'' @ write_u64 (Total (snd ib)) @ ''}''\<close>

definition spec_Calls :: "FunctionProfile \<Rightarrow> string" where
  \<open>spec_Calls P = (if CallCount P = 0 then [] else ''"Calls":'' @ write_u64 (CallCount P) @ '','')\<close>

definition spec_Allocs :: "FunctionProfile \<Rightarrow> string" where
  \<open>spec_Allocs P =
     (if Count (Preopt P) = 0 \<and> Count (Postopt P) = 0 then []
      else ''"Allocs":[{"Size":'' @ write_u64 (Size (Preopt P))
             @ '',"Count":'' @ write_u64 (Count (Preopt P))
             @ ''},{"Size":'' @ write_u64 (Size (Postopt P))
             @ '',"Count":'' @ write_u64 (Count (Postopt P)) @ ''}],'')\<close>

definition spec_Branches :: "FunctionProfile \<Rightarrow> string" where
  \<open>spec_Branches P =
     (if populated (BranchProfiles P) = [] then []
      else ''"Branches":['' @ join '','' (map spec_Branch (populated (BranchProfiles P))) @ ''],'')\<close>

definition spec_Loops :: "FunctionProfile \<Rightarrow> string" where
  \<open>spec_Loops P = (if Loops P = 0 then [] else ''"Loops":'' @ write_unsigned (Loops P) @ '','')\<close>

definition spec_profile :: "string \<times> FunctionProfile \<Rightarrow> string" where
  \<open>spec_profile KV =
     ''{"Name":"'' @ fst KV @ ''",''
       @ spec_Calls (snd KV) @ spec_Allocs (snd KV) @ spec_Branches (snd KV) @ spec_Loops (snd KV)
       @ ''"BBs":'' @ write_unsigned (BBs (snd KV))
       @ '',"Insts":'' @ write_unsigned (Insts (snd KV)) @ ''}''\<close>

definition spec_dump :: "store \<Rightarrow> string" where
  "spec_dump FunctionProfiles =
     ''['' @ join '','' (map spec_profile FunctionProfiles) @ '']'' @ [CHR 0x0A]"

subsection \<open>Running the inserted instructions\<close>

text \<open>
  What the instructions the passes insert do when the function runs. The memory
  gives the value of every counter. An atomic add stores the sum and yields the
  value the location held before the operation (the result of LLVM's
  \<^verbatim>\<open>atomicrmw\<close>); a comparison yields 1 or 0; a call through a constant pointer
  is recorded with its arguments. Values of integers are kept zero-extended, so the
  two casts keep the value. Results of instructions are kept per instruction.
  Instructions of the original code are not run: the run stops there with \<open>None\<close>.
\<close>

type_synonym memory = "counter \<Rightarrow> u64"

datatype event = PointerCall llconst "val list"

record machine =
  m_memory :: memory
  m_results :: "(inst \<times> u64) list"
  m_events :: "event list"

definition eval_val :: "(inst \<times> u64) list \<Rightarrow> val \<Rightarrow> u64 option" where
  "eval_val R v =
     (case v of
        Const c \<Rightarrow> (case c of ConstantInt b x \<Rightarrow> Some x | _ \<Rightarrow> None)
      | Local b n \<Rightarrow> None
      | InstVal I \<Rightarrow> map_of R I)"

definition set_result :: "machine \<Rightarrow> inst \<Rightarrow> u64 \<Rightarrow> machine" where
  "set_result M I x = M\<lparr> m_results := (I, x) # m_results M \<rparr>"

definition exec_inst :: "machine \<Rightarrow> inst \<Rightarrow> machine option" where
  "exec_inst M I =
     (case I of
        AtomicRMWAdd p v \<Rightarrow>
          (case p of
             Const pc \<Rightarrow>
               (case pc of
                  IntToPtr a \<Rightarrow>
                    (case a of
                       CounterAddr c \<Rightarrow>
                         (case eval_val (m_results M) v of
                            Some x \<Rightarrow>
                              Some (set_result
                                      (M\<lparr> m_memory := (m_memory M)(c := m_memory M c + x) \<rparr>)
                                      I (m_memory M c))
                          | None \<Rightarrow> None)
                     | _ \<Rightarrow> None)
                | _ \<Rightarrow> None)
           | _ \<Rightarrow> None)
      | ICmpEQ a b \<Rightarrow>
          (case eval_val (m_results M) a of
             Some x \<Rightarrow>
               (case eval_val (m_results M) b of
                  Some y \<Rightarrow> Some (set_result M I (if x = y then 1 else 0))
                | None \<Rightarrow> None)
           | None \<Rightarrow> None)
      | ZExtInst v \<Rightarrow>
          (case eval_val (m_results M) v of Some x \<Rightarrow> Some (set_result M I x) | None \<Rightarrow> None)
      | CastInst v \<Rightarrow>
          (case eval_val (m_results M) v of Some x \<Rightarrow> Some (set_result M I x) | None \<Rightarrow> None)
      | CallInst Called Args \<Rightarrow>
          (case Called of
             IndirectCallee p \<Rightarrow>
               (case p of
                  Const pc \<Rightarrow> Some (M\<lparr> m_events := m_events M @ [PointerCall pc Args] \<rparr>)
                | _ \<Rightarrow> None)
           | DirectCallee n \<Rightarrow> None)
      | OtherInst k \<Rightarrow> None)"

fun exec_insts :: "machine \<Rightarrow> inst list \<Rightarrow> machine option" where
  "exec_insts M [] = Some M"
| "exec_insts M (I # rest) =
     (case exec_inst M I of None \<Rightarrow> None | Some M1 \<Rightarrow> exec_insts M1 rest)"

text \<open>
  Running from the block labelled \<open>l\<close> until control reaches the block labelled
  \<open>stop\<close>, for at most \<open>fuel\<close> blocks.
\<close>

fun run_to :: "nat \<Rightarrow> basic_block list \<Rightarrow> nat \<Rightarrow> nat \<Rightarrow> machine \<Rightarrow> machine option" where
  "run_to 0 blocks stop l M = (if l = stop then Some M else None)"
| "run_to (Suc fuel) blocks stop l M =
     (if l = stop then Some M
      else
        case find (\<lambda>BB. bb_label BB = l) blocks of
          None \<Rightarrow> None
        | Some BB \<Rightarrow>
            (case exec_insts M (bb_insts BB) of
               None \<Rightarrow> None
             | Some M1 \<Rightarrow>
                 (case bb_term BB of
                    BranchInst_uncond t \<Rightarrow> run_to fuel blocks stop t M1
                  | BranchInst_cond Cond t f \<Rightarrow>
                      (case eval_val (m_results M1) Cond of
                         None \<Rightarrow> None
                       | Some x \<Rightarrow> run_to fuel blocks stop (if x \<noteq> 0 then t else f) M1)
                  | OtherTerminator k \<Rightarrow> None)))"

text \<open>
  One execution of the function, from its entry block until control reaches the
  block \<open>stop\<close>: the memory afterwards and the calls made on the way.
\<close>

definition call_prologue :: "nat \<Rightarrow> func \<Rightarrow> nat \<Rightarrow> memory \<Rightarrow> (memory \<times> event list) option" where
  "call_prologue fuel F stop m =
     (case fn_blocks F of
        [] \<Rightarrow> None
      | Entry # rest \<Rightarrow>
          (case run_to fuel (fn_blocks F) stop (bb_label Entry)
                  \<lparr> m_memory = m, m_results = [], m_events = [] \<rparr> of
             None \<Rightarrow> None
           | Some M \<Rightarrow> Some (m_memory M, m_events M)))"

text \<open>\<open>n\<close> executions in a row: the memory afterwards and all the calls made.\<close>

fun call_prologues :: "nat \<Rightarrow> nat \<Rightarrow> func \<Rightarrow> nat \<Rightarrow> memory \<Rightarrow> (memory \<times> event list) option" where
  "call_prologues 0 fuel F stop m = Some (m, [])"
| "call_prologues (Suc n) fuel F stop m =
     (case call_prologue fuel F stop m of
        None \<Rightarrow> None
      | Some r1 \<Rightarrow>
          (case call_prologues n fuel F stop (fst r1) of
             None \<Rightarrow> None
           | Some r2 \<Rightarrow> Some (fst r2, snd r1 @ snd r2)))"

subsection \<open>Example inputs\<close>

text \<open>
  A function \<^verbatim>\<open>f\<close> of one block (one instruction and a return) with no annotation,
  and the switches all off.
\<close>

definition fn_plain :: func where
  "fn_plain =
     \<lparr> fn_name = ''f'', julia_prof = None, julia_prof_reporter = None, fn_entry_count = None,
       fn_blocks = [\<lparr> bb_label = 0, bb_insts = [OtherInst 0], bb_term = OtherTerminator 0,
                      bb_weights = None \<rparr>] \<rparr>"

definition sw_off :: switches where
  "sw_off = \<lparr> ForceProfileAllocations = False, ForceProfileCalls = False,
              ForceProfileBranches = False \<rparr>"

definition flags_of :: "bool \<Rightarrow> bool \<Rightarrow> bool \<Rightarrow> bool \<Rightarrow> ProfilingFlags" where
  "flags_of a b c p =
     \<lparr> ProfileAllocations = a, ProfileBranches = b, ProfileCalls = c, ApplyPGO = p \<rparr>"

text \<open>The function \<^verbatim>\<open>f\<close> with an annotation that encodes the given flags.\<close>

definition fn_annotated :: "ProfilingFlags \<Rightarrow> func" where
  "fn_annotated Flags = fn_plain\<lparr> julia_prof := Some (toMDNode Flags) \<rparr>"

text \<open>
  The function \<^verbatim>\<open>f\<close> with calls enabled and a reporter annotation: threshold 1,
  the callback at address 4096, one argument.
\<close>

definition fn_reported :: func where
  "fn_reported =
     (fn_annotated (flags_of False False True False))
       \<lparr> julia_prof_reporter :=
           Some (MDTuple [ConstantAsMetadata (ConstantInt 64 1),
                          ConstantAsMetadata (ConstantInt 64 4096),
                          ConstantAsMetadata (ConstantInt 32 7)]) \<rparr>"

text \<open>
  A function \<^verbatim>\<open>h\<close> of three blocks: block 0 ends in an unconditional branch to
  block 1, block 1 in a branch on a value that is not a constant, block 2 returns.
\<close>

definition fn_three_blocks :: func where
  "fn_three_blocks =
     \<lparr> fn_name = ''h'', julia_prof = None, julia_prof_reporter = None, fn_entry_count = None,
       fn_blocks =
         [\<lparr> bb_label = 0, bb_insts = [], bb_term = BranchInst_uncond 1, bb_weights = None \<rparr>,
          \<lparr> bb_label = 1, bb_insts = [], bb_term = BranchInst_cond (Local 1 0) 1 2,
            bb_weights = None \<rparr>,
          \<lparr> bb_label = 2, bb_insts = [], bb_term = OtherTerminator 0, bb_weights = None \<rparr>] \<rparr>"

subsection \<open>Auxiliary definitions\<close>

text \<open>The populated slots from index \<open>Idx\<close> on, by recursion over the slots.\<close>

fun populated_from :: "nat \<Rightarrow> BranchInfo option list \<Rightarrow> (nat \<times> BranchInfo) list" where
  "populated_from Idx [] = []"
| "populated_from Idx (None # rest) = populated_from (Suc Idx) rest"
| "populated_from Idx (Some B # rest) = (Idx, B) # populated_from (Suc Idx) rest"

text \<open>
  The two blocks \<^verbatim>\<open>addCallInstrumentation\<close> builds for a reporter with threshold
  \<open>T\<close>, callback \<open>fp\<close> and arguments \<open>Args\<close>, and the function it returns.
\<close>

definition reporter_head :: "string \<Rightarrow> FunctionProfile \<Rightarrow> func \<Rightarrow> basic_block \<Rightarrow> u64 \<Rightarrow> basic_block" where
  "reporter_head Name Prof F Entry T =
     \<lparr> bb_label = bb_label Entry,
       bb_insts = [AtomicRMWAdd (counter_ptr (CallCountCell Name)) (i64 1),
                   ICmpEQ (InstVal (AtomicRMWAdd (counter_ptr (CallCountCell Name)) (i64 1)))
                          (Const (ConstantInt 64 T))],
       bb_term = BranchInst_cond
                   (InstVal (ICmpEQ (InstVal (AtomicRMWAdd (counter_ptr (CallCountCell Name)) (i64 1)))
                                    (Const (ConstantInt 64 T))))
                   (Suc (fresh_label F)) (fresh_label F),
       bb_weights = Some (1, ucast (T - CallCount Prof)) \<rparr>"

definition reporter_then :: "func \<Rightarrow> nat \<Rightarrow> u64 \<Rightarrow> val list \<Rightarrow> basic_block" where
  "reporter_then F w fp Args =
     \<lparr> bb_label = Suc (fresh_label F),
       bb_insts = [CallInst (IndirectCallee (Const (IntToPtr (ConstantInt w fp)))) Args],
       bb_term = BranchInst_uncond (fresh_label F),
       bb_weights = None \<rparr>"

definition instrumented ::
  "string \<Rightarrow> FunctionProfile \<Rightarrow> func \<Rightarrow> basic_block \<Rightarrow> basic_block list \<Rightarrow> u64 \<Rightarrow> nat \<Rightarrow> u64
     \<Rightarrow> val list \<Rightarrow> func" where
  "instrumented Name Prof F Entry rest T w fp Args =
     F\<lparr> fn_blocks := reporter_head Name Prof F Entry T # reporter_then F w fp Args
                        # Entry\<lparr> bb_label := fresh_label F \<rparr> # rest \<rparr>"

section \<open>Properties\<close>

subsection \<open>Flag resolution\<close>

lemma and_then_Inl [simp]: "and_then (Inl e) f = Inl e"
  by (simp add: and_then_def)

lemma and_then_Inr [simp]: "and_then (Inr x) f = f x"
  by (simp add: and_then_def)

lemma fromMDNode_tuple:
  "fromMDNode (MDTuple [ConstantAsMetadata (ConstantInt wa a), ConstantAsMetadata (ConstantInt wb b),
                        ConstantAsMetadata (ConstantInt wc c), ConstantAsMetadata (ConstantInt wd d)])
   = Inr \<lparr> ProfileAllocations = (a \<noteq> 0), ProfileBranches = (b \<noteq> 0),
           ProfileCalls = (c \<noteq> 0), ApplyPGO = (d \<noteq> 0) \<rparr>"
  by (simp add: fromMDNode_def extractProfNum_def getZExtValue_def)

text \<open>
  Decoding what \<^verbatim>\<open>toMDNode\<close> encodes gives the flags back: the declaration order
  assumed for the fields is the order in which \<^verbatim>\<open>toMDNode\<close> writes them.
\<close>

lemma fromMDNode_toMDNode: "fromMDNode (toMDNode Flags) = Inr Flags"
  by (simp add: toMDNode_def getBool_def fromMDNode_tuple)

lemma fromFunction_annotated [simp]: "fromFunction sw (fn_annotated Flags) = Inr Flags"
  by (simp add: fromFunction_def fn_annotated_def fromMDNode_toMDNode)

lemma fromFunction_plain [simp]: "fromFunction sw_off fn_plain = Inr (flags_of False False False False)"
  by (simp add: fromFunction_def fn_plain_def sw_off_def flags_of_def)

text \<open>
  C4. Flag resolution follows the priority order. With an annotation, the result
  is what decoding the annotation gives, whatever the switches are: a 4-tuple of
  integer constants is decoded in the order allocations, branches, calls, PGO.
  Without an annotation, each of the first three flags is the switch of its name,
  and \<open>ApplyPGO\<close> is false.
\<close>

theorem flag_resolution_priority:
  "fromFunction sw (F\<lparr> julia_prof := Some MDN \<rparr>) = fromMDNode MDN
   \<and> fromMDNode (MDTuple [ConstantAsMetadata (ConstantInt wa a), ConstantAsMetadata (ConstantInt wb b),
                          ConstantAsMetadata (ConstantInt wc c), ConstantAsMetadata (ConstantInt wd d)])
       = Inr \<lparr> ProfileAllocations = (a \<noteq> 0), ProfileBranches = (b \<noteq> 0),
               ProfileCalls = (c \<noteq> 0), ApplyPGO = (d \<noteq> 0) \<rparr>
   \<and> fromFunction sw (F\<lparr> julia_prof := None \<rparr>)
       = Inr \<lparr> ProfileAllocations = ForceProfileAllocations sw,
               ProfileBranches = ForceProfileBranches sw,
               ProfileCalls = ForceProfileCalls sw,
               ApplyPGO = False \<rparr>"
  by (simp add: fromFunction_def fromMDNode_tuple)

subsection \<open>The passes without a store, without flags, without a profile\<close>

text \<open>
  C10. With a null \<^verbatim>\<open>JITProf\<close> both passes return at once: all analyses are
  preserved, and the function is as it was. The annotation is not even read, so
  this holds for every function and all switches.
\<close>

theorem null_store_passes_return_at_once:
  "JITPreoptimizationProfiler_run None sw NumLoops F = Inr (PreservedAll, F, None)
   \<and> JITPostoptimizationProfiler_run None sw F = Inr (PreservedAll, F, None)"
  by (simp add: JITPreoptimizationProfiler_run_def JITPostoptimizationProfiler_run_def)

text \<open>
  C7. When the flags resolved for the function ask for none of branches,
  allocations and apply-PGO, the pre-optimisation pass reports all analyses
  preserved and leaves the function and the store as they were: no profile is
  created.
\<close>

theorem preopt_noop_without_flags:
  assumes "fromFunction sw F = Inr Flags"
      and "\<not> ProfileBranches Flags" and "\<not> ProfileAllocations Flags" and "\<not> ApplyPGO Flags"
  shows "JITPreoptimizationProfiler_run JITProf sw NumLoops F = Inr (PreservedAll, F, JITProf)"
  using assms by (simp add: JITPreoptimizationProfiler_run_def split: option.splits)

theorem preopt_noop_without_flags_witness:
  "fromFunction sw_off (fn_annotated (flags_of False False True False))
     = Inr (flags_of False False True False)
   \<and> JITPreoptimizationProfiler_run (Some []) sw_off 0 (fn_annotated (flags_of False False True False))
     = Inr (PreservedAll, fn_annotated (flags_of False False True False), Some [])"
proof -
  have h: "fromFunction sw_off (fn_annotated (flags_of False False True False))
             = Inr (flags_of False False True False)"
    by simp
  show ?thesis
    using h preopt_noop_without_flags [OF h, of "Some []" 0]
    by (simp add: flags_of_def)
qed

text \<open>
  C6. When the store has no profile under the name of the function,
  \<^verbatim>\<open>getProfile\<close> returns the null pointer, and the post-optimisation pass, once the
  flags are resolved, reports all analyses preserved and leaves the function and
  the store as they were: it creates no profile. (The only other outcome is that
  the resolution of the flags stops on a malformed annotation, before the store is
  read.)
\<close>

theorem postopt_never_creates_profile:
  assumes "fn_name F \<notin> fst ` set FunctionProfiles"
  shows "getProfile FunctionProfiles (fn_name F) = None
       \<and> JITPostoptimizationProfiler_run (Some FunctionProfiles) sw F
           = (case fromFunction sw F of
                Inl e \<Rightarrow> Inl e
              | Inr Flags \<Rightarrow> Inr (PreservedAll, F, Some FunctionProfiles))"
proof -
  have "getProfile FunctionProfiles (fn_name F) = None"
    using assms by (simp add: getProfile_def map_of_eq_None_iff)
  then show ?thesis
    by (simp add: JITPostoptimizationProfiler_run_def split: sum.splits)
qed

theorem postopt_never_creates_profile_witness:
  "JITPostoptimizationProfiler_run (Some [(''g'', new_FunctionProfile)]) sw_off
     (fn_annotated (flags_of True False True False))
   = Inr (PreservedAll, fn_annotated (flags_of True False True False),
          Some [(''g'', new_FunctionProfile)])"
proof -
  have h: "fn_name (fn_annotated (flags_of True False True False))
             \<notin> fst ` set [(''g'', new_FunctionProfile)]"
    by (simp add: fn_annotated_def fn_plain_def)
  show ?thesis
    using postopt_never_creates_profile [OF h, of sw_off]
    by simp
qed

subsection \<open>What the post-optimisation pass reports\<close>

text \<open>
  C3, as the code has it. When the pass returns, the store is as it was, and it
  reports all analyses preserved exactly when it returned before the
  instrumentation step: the store pointer is null, or the flags ask for neither
  calls nor allocations, or the function has no profile. Then the function is
  unchanged. In every other case it reports that nothing is preserved; so it does
  whenever it changed the function.
\<close>

theorem postopt_preserved_iff:
  assumes "JITPostoptimizationProfiler_run JITProf sw F = Inr (PA, F1, JITProf1)"
  shows "JITProf1 = JITProf
       \<and> (PA = PreservedAll \<longleftrightarrow>
            (case JITProf of
               None \<Rightarrow> True
             | Some FunctionProfiles \<Rightarrow>
                 (\<exists>Flags. fromFunction sw F = Inr Flags
                    \<and> (\<not> ProfileAllocations Flags \<and> \<not> ProfileCalls Flags
                        \<or> getProfile FunctionProfiles (fn_name F) = None))))
       \<and> (PA = PreservedAll \<longrightarrow> F1 = F)
       \<and> (F1 \<noteq> F \<longrightarrow> PA = PreservedNone)"
  using assms
  by (auto simp add: JITPostoptimizationProfiler_run_def and_then_def
        split: option.splits sum.splits if_splits)

theorem postopt_preserved_iff_witness:
  "JITPostoptimizationProfiler_run (Some [(''f'', new_FunctionProfile)]) sw_off
     (fn_annotated (flags_of False False True False))
   = Inr (PreservedNone,
          fn_plain\<lparr> julia_prof := Some (toMDNode (flags_of False False True False)),
                    fn_blocks :=
                      [\<lparr> bb_label = 0,
                         bb_insts = [AtomicRMWAdd (counter_ptr (CallCountCell ''f'')) (i64 1),
                                     OtherInst 0],
                         bb_term = OtherTerminator 0, bb_weights = None \<rparr>] \<rparr>,
          Some [(''f'', new_FunctionProfile)])
   \<and> PreservedNone \<noteq> PreservedAll"
proof -
  have h: "JITPostoptimizationProfiler_run (Some [(''f'', new_FunctionProfile)]) sw_off
     (fn_annotated (flags_of False False True False))
   = Inr (PreservedNone,
          fn_plain\<lparr> julia_prof := Some (toMDNode (flags_of False False True False)),
                    fn_blocks :=
                      [\<lparr> bb_label = 0,
                         bb_insts = [AtomicRMWAdd (counter_ptr (CallCountCell ''f'')) (i64 1),
                                     OtherInst 0],
                         bb_term = OtherTerminator 0, bb_weights = None \<rparr>] \<rparr>,
          Some [(''f'', new_FunctionProfile)])"
    by code_simp
  show ?thesis
    using h postopt_preserved_iff [OF h]
    by simp
qed

text \<open>
  Against C3 as it is stated: with allocations alone requested, a profile in the
  store and no allocation call in the function, the pass adds nothing (the function
  it returns is the one it was given) and still reports that nothing is preserved.
\<close>

theorem postopt_reports_none_when_nothing_added:
  "JITPostoptimizationProfiler_run (Some [(''f'', new_FunctionProfile)]) sw_off
     (fn_annotated (flags_of True False False False))
   = Inr (PreservedNone, fn_annotated (flags_of True False False False),
          Some [(''f'', new_FunctionProfile)])"
  by code_simp

subsection \<open>Where the code goes wrong\<close>

text \<open>
  C2. \<^verbatim>\<open>applyPGOInstrumentation\<close> tests neither the index nor the slot. For the
  function of one block that returns: with branches and apply-PGO requested, the
  slot of the block is empty and is dereferenced; with apply-PGO alone and a new
  profile, the sequence of slots is empty and is indexed at 0.
\<close>

theorem applyPGO_dereferences_empty_slot:
  "JITPreoptimizationProfiler_run (Some []) sw_off 0 (fn_annotated (flags_of False True False True))
     = Inl NullDereference
   \<and> JITPreoptimizationProfiler_run (Some []) sw_off 0 (fn_annotated (flags_of False False False True))
     = Inl IndexOutOfRange"
  by code_simp

text \<open>
  The part of the branch instrumentation that holds for every function: when it
  returns, there are as many slots as the function has blocks, and no block was
  added or removed.
\<close>

lemma branch_loop_length:
  "branch_loop Name BBidx BPs blocks = Inr r \<Longrightarrow>
     length (fst r) = length BPs \<and> length (snd r) = length blocks"
proof (induction blocks arbitrary: BBidx BPs r)
  case Nil
  then show ?case by auto
next
  case (Cons BB rest)
  then show ?case
    by (auto simp add: and_then_def Let_def
          split: terminator.splits sum.splits if_splits option.splits)
qed

lemma addBranchInstrumentation_sized:
  assumes "addBranchInstrumentation Name Prof F = Inr (Prof1, F1)"
  shows "length (BranchProfiles Prof1) = length (fn_blocks F)
       \<and> length (fn_blocks F1) = length (fn_blocks F)"
  using assms
  by (auto simp add: addBranchInstrumentation_def Let_def and_then_def
        split: if_splits sum.splits dest!: branch_loop_length)

text \<open>
  C5. For the function of three blocks, whose only conditional branch ends block
  1, the slot that is populated is slot 0, the index of a block that ends in an
  unconditional branch, and slot 1 stays empty: the \<^verbatim>\<open>continue\<close> for block 0
  skipped the increment of \<^verbatim>\<open>BBidx\<close>. The two atomic adds before the branch of
  block 1 point to the counters of slot 0.
\<close>

theorem branch_slot_at_wrong_index:
  "addBranchInstrumentation ''h'' new_FunctionProfile fn_three_blocks
   = Inr (new_FunctionProfile\<lparr> BranchProfiles := [Some \<lparr> Taken = 0, Total = 0 \<rparr>, None, None] \<rparr>,
          fn_three_blocks\<lparr> fn_blocks :=
            [\<lparr> bb_label = 0, bb_insts = [], bb_term = BranchInst_uncond 1, bb_weights = None \<rparr>,
             \<lparr> bb_label = 1,
               bb_insts = [AtomicRMWAdd (counter_ptr (BranchTotalCell ''h'' 0)) (i64 1),
                           ZExtInst (Local 1 0),
                           AtomicRMWAdd (counter_ptr (BranchTakenCell ''h'' 0))
                             (InstVal (ZExtInst (Local 1 0)))],
               bb_term = BranchInst_cond (Local 1 0) 1 2, bb_weights = None \<rparr>,
             \<lparr> bb_label = 2, bb_insts = [], bb_term = OtherTerminator 0,
               bb_weights = None \<rparr>] \<rparr>)"
  by code_simp

subsection \<open>The dump writes the report of the interface\<close>

lemma populated_from_eq:
  "populated_from k BPs = [(k + i, the (BPs ! i)). i \<leftarrow> [0..<length BPs], BPs ! i \<noteq> None]"
proof (induction BPs arbitrary: k)
  case Nil
  then show ?case by simp
next
  case (Cons x xs)
  have shift: "[0..<Suc (length xs)] = 0 # map Suc [0..<length xs]"
    by (simp add: upt_conv_Cons map_Suc_upt del: upt_Suc)
  show ?case
    by (cases x) (simp_all add: shift Cons.IH o_def del: upt_Suc cong: if_cong)
qed

lemma populated_eq: "populated BPs = populated_from 0 BPs"
  by (simp add: populated_def populated_from_eq cong: if_cong)

lemma join_Cons: "join sep (x # xs) = (if xs = [] then x else x @ sep @ join sep xs)"
  by (cases xs) simp_all

lemma dump_branches_eq:
  \<open>dump_branches BPs Idx Comma OS =
     (Comma \<or> populated_from Idx BPs \<noteq> [],
      OS @ (if populated_from Idx BPs = [] then []
            else (if Comma then '','' else ''"Branches":['')
                 @ join '','' (map spec_Branch (populated_from Idx BPs))))\<close>
proof (induction BPs arbitrary: Idx Comma OS)
  case Nil
  then show ?case by simp
next
  case (Cons x xs)
  show ?case
  proof (cases x)
    case None
    then show ?thesis by (simp add: Cons.IH)
  next
    case (Some B)
    then show ?thesis
      by (simp add: Cons.IH join_Cons spec_Branch_def)
  qed
qed

lemma dump_profile_eq: "dump_profile KV OS = OS @ spec_profile KV"
  by (simp add: dump_profile_def spec_profile_def spec_Calls_def spec_Allocs_def
        spec_Branches_def spec_Loops_def dump_branches_eq populated_eq Let_def)

lemma dump_profiles_eq:
  "dump_profiles st (length st) OS = OS @ join '','' (map spec_profile st)"
proof (induction st arbitrary: OS)
  case Nil
  then show ?case by simp
next
  case (Cons KV rest)
  then show ?case
    by (simp add: dump_profile_eq Let_def join_Cons)
qed

lemma dump_appends: "dump st OS = OS @ spec_dump st"
  by (simp add: dump_def spec_dump_def dump_profiles_eq)

text \<open>
  C8. For every store and whatever the stream holds already, \<^verbatim>\<open>dump\<close> appends
  the report as the interface describes it (\<open>spec_dump\<close>): for each profile the
  name; the calls exactly when \<^verbatim>\<open>CallCount\<close> is not zero; the pair of allocation
  records exactly when one of the two counts is not zero; the list of exactly the
  populated slots, each with its index, and no list when no slot is populated; the
  loops exactly when not zero; and always the blocks and the instructions.
\<close>

theorem dump_renders_report: "dump FunctionProfiles OS = OS @ spec_dump FunctionProfiles"
  by (rule dump_appends)

text \<open>The concrete scenario of the specification, with the block counts filled in.\<close>

lemma dump_scenario:
  \<open>dump [(''foo'', new_FunctionProfile
                    \<lparr> CallCount := 10,
                      BranchProfiles := [None, Some \<lparr> Taken = 3, Total = 10 \<rparr>, None],
                      BBs := 3, Insts := 12 \<rparr>)] []
   = ''[{"Name":"foo","Calls":10,"Branches":[{"Idx":1,"Taken":3,"Total":10}],"BBs":3,"Insts":12}]''
       @ [CHR 0x0A]\<close>
  by code_simp

text \<open>
  C9. Two calls of \<^verbatim>\<open>dump\<close> in a row on the same store: what the second call
  writes is what the first call wrote.
\<close>

theorem dump_twice_same_output:
  "drop (length (dump FunctionProfiles OS)) (dump FunctionProfiles (dump FunctionProfiles OS))
   = drop (length OS) (dump FunctionProfiles OS)"
  by (simp add: dump_appends)

subsection \<open>When the reporter is called\<close>

text \<open>
  With calls requested, allocations not, and a profile in the store, the pass
  returns what \<^verbatim>\<open>addCallInstrumentation\<close> makes of the function, for the profile
  stored under the name of the function.
\<close>

lemma postopt_run_calls_only:
  assumes "fromFunction sw F = Inr Flags" and "ProfileCalls Flags" and "\<not> ProfileAllocations Flags"
      and "getProfile FunctionProfiles (fn_name F) = Some Prof"
  shows "JITPostoptimizationProfiler_run (Some FunctionProfiles) sw F
         = and_then (addCallInstrumentation (fn_name F) Prof F)
             (\<lambda>F1. Inr (PreservedNone, F1, Some FunctionProfiles))"
  using assms by (simp add: JITPostoptimizationProfiler_run_def)

lemma max_label_ge: "BB \<in> set blocks \<Longrightarrow> bb_label BB \<le> max_label blocks"
  by (induction blocks) auto

lemma entry_label_lt_fresh: "fn_blocks F = Entry # rest \<Longrightarrow> bb_label Entry < fresh_label F"
  using max_label_ge [of Entry "fn_blocks F"] by (simp add: fresh_label_def)

lemma addCallInstrumentation_reporter:
  assumes "fn_blocks F = Entry # rest"
      and "julia_prof_reporter F =
             Some (MDTuple (ConstantAsMetadata (ConstantInt 64 T)
                            # ConstantAsMetadata (ConstantInt w fp) # ArgsMD))"
      and "reporter_args ArgsMD = Inr Args"
  shows "addCallInstrumentation Name Prof F = Inr (instrumented Name Prof F Entry rest T w fp Args)"
  using assms
  by (simp add: addCallInstrumentation_def extractProfNum_def getSExtValue_def Let_def
        reporter_head_def reporter_then_def instrumented_def)

text \<open>The head block: the atomic add yields the old count, which is compared with \<open>T\<close>.\<close>

lemma exec_head:
  "exec_insts \<lparr> m_memory = m, m_results = [], m_events = [] \<rparr>
     (bb_insts (reporter_head Name Prof F Entry T))
   = Some \<lparr> m_memory = m(CallCountCell Name := m (CallCountCell Name) + 1),
            m_results = [(ICmpEQ (InstVal (AtomicRMWAdd (counter_ptr (CallCountCell Name)) (i64 1)))
                                 (Const (ConstantInt 64 T)),
                          if m (CallCountCell Name) = T then 1 else 0),
                         (AtomicRMWAdd (counter_ptr (CallCountCell Name)) (i64 1),
                          m (CallCountCell Name))],
            m_events = [] \<rparr>"
  by (simp add: reporter_head_def exec_inst_def eval_val_def set_result_def counter_ptr_def i64_def)

lemma run_instrumented_entry:
  assumes blocks: "fn_blocks F = Entry # rest"
  shows "run_to (Suc (Suc k))
           (reporter_head Name Prof F Entry T # reporter_then F w fp Args
              # Entry\<lparr> bb_label := fresh_label F \<rparr> # rest)
           (fresh_label F) (bb_label Entry)
           \<lparr> m_memory = m, m_results = [], m_events = [] \<rparr>
         = Some \<lparr> m_memory = m(CallCountCell Name := m (CallCountCell Name) + 1),
                  m_results = [(ICmpEQ (InstVal (AtomicRMWAdd (counter_ptr (CallCountCell Name)) (i64 1)))
                                       (Const (ConstantInt 64 T)),
                                if m (CallCountCell Name) = T then 1 else 0),
                               (AtomicRMWAdd (counter_ptr (CallCountCell Name)) (i64 1),
                                m (CallCountCell Name))],
                  m_events = (if m (CallCountCell Name) = T
                              then [PointerCall (IntToPtr (ConstantInt w fp)) Args] else []) \<rparr>"
proof -
  have lt: "bb_label Entry < fresh_label F"
    using blocks by (rule entry_label_lt_fresh)
  have head_label: "bb_label (reporter_head Name Prof F Entry T) = bb_label Entry"
    by (simp add: reporter_head_def)
  have head_term: "bb_term (reporter_head Name Prof F Entry T) =
      BranchInst_cond
        (InstVal (ICmpEQ (InstVal (AtomicRMWAdd (counter_ptr (CallCountCell Name)) (i64 1)))
                         (Const (ConstantInt 64 T))))
        (Suc (fresh_label F)) (fresh_label F)"
    by (simp add: reporter_head_def)
  show ?thesis
  proof (cases "m (CallCountCell Name) = T")
    case True
    then show ?thesis
      using lt
      apply (simp add: head_label head_term exec_head eval_val_def del: exec_insts.simps)
      apply (cases k)
       apply (simp_all add: reporter_then_def exec_inst_def)
      done
  next
    case False
    then show ?thesis
      using lt
      by (simp add: head_label head_term exec_head eval_val_def del: exec_insts.simps)
  qed
qed

lemma find_tail:
  assumes blocks: "fn_blocks F = Entry # rest"
  shows "find (\<lambda>BB. bb_label BB = fresh_label F)
           (fn_blocks (instrumented Name Prof F Entry rest T w fp Args))
         = Some (Entry\<lparr> bb_label := fresh_label F \<rparr>)"
  using entry_label_lt_fresh [OF blocks]
  by (simp add: instrumented_def reporter_head_def reporter_then_def)

lemma call_prologue_instrumented:
  assumes blocks: "fn_blocks F = Entry # rest" and fuel: "2 \<le> fuel"
  shows "call_prologue fuel (instrumented Name Prof F Entry rest T w fp Args) (fresh_label F) m
         = Some (m(CallCountCell Name := m (CallCountCell Name) + 1),
                 if m (CallCountCell Name) = T
                 then [PointerCall (IntToPtr (ConstantInt w fp)) Args] else [])"
proof -
  obtain k where k: "fuel = Suc (Suc k)"
    using fuel by (metis Suc_le_D numeral_2_eq_2 Suc_le_mono)
  have head_label: "bb_label (reporter_head Name Prof F Entry T) = bb_label Entry"
    by (simp add: reporter_head_def)
  show ?thesis
    unfolding k
    by (simp add: call_prologue_def instrumented_def head_label
          run_instrumented_entry [OF blocks] del: run_to.simps)
qed

lemma unat_plus_one: "unat (x :: u64) + 1 < 2 ^ 64 \<Longrightarrow> unat (x + 1) = unat x + 1"
  by (simp add: unat_word_ariths)

lemma call_prologues_instrumented:
  assumes blocks: "fn_blocks F = Entry # rest" and fuel: "2 \<le> fuel"
  shows "unat (m (CallCountCell Name)) + n \<le> 2 ^ 64 \<Longrightarrow>
         call_prologues n fuel (instrumented Name Prof F Entry rest T w fp Args) (fresh_label F) m
         = Some (m(CallCountCell Name := m (CallCountCell Name) + of_nat n),
                 if unat (m (CallCountCell Name)) \<le> unat T
                    \<and> unat T < unat (m (CallCountCell Name)) + n
                 then [PointerCall (IntToPtr (ConstantInt w fp)) Args] else [])"
proof (induction n arbitrary: m)
  case 0
  then show ?case by simp
next
  case (Suc n)
  note IH = Suc.IH and prems = Suc.prems
  let ?c = "CallCountCell Name"
  let ?m1 = "m(?c := m ?c + 1)"
  have step: "call_prologue fuel (instrumented Name Prof F Entry rest T w fp Args) (fresh_label F) m
         = Some (?m1, if m ?c = T then [PointerCall (IntToPtr (ConstantInt w fp)) Args] else [])"
    by (rule call_prologue_instrumented [OF blocks fuel])
  show ?case
  proof (cases n)
    case 0
    have cond: "(unat (m ?c) \<le> unat T \<and> unat T < unat (m ?c) + Suc 0) = (m ?c = T)"
      by (auto simp add: word_unat_eq_iff)
    have mem0: "m(?c := m ?c + of_nat (Suc 0)) = ?m1"
      by simp
    have "call_prologues (Suc 0) fuel (instrumented Name Prof F Entry rest T w fp Args)
            (fresh_label F) m
            = Some (?m1, if m ?c = T then [PointerCall (IntToPtr (ConstantInt w fp)) Args] else [])"
      by (simp only: call_prologues.simps step option.case fst_conv snd_conv append_Nil2)
    then show ?thesis
      unfolding 0 by (simp only: cond mem0)
  next
    case (Suc n')
    with prems have small: "unat (m ?c) + 1 < 2 ^ 64"
      by simp
    have u1: "unat (?m1 ?c) = unat (m ?c) + 1"
      using small by (simp add: unat_plus_one)
    have pre: "unat (?m1 ?c) + n \<le> 2 ^ 64"
      using prems u1 by simp
    have eq: "(m ?c = T) = (unat (m ?c) = unat T)"
      by (simp add: word_unat_eq_iff)
    have mem: "?m1(?c := ?m1 ?c + of_nat n) = m(?c := m ?c + of_nat (Suc n))"
      by (simp add: ac_simps)
    show ?thesis
      using IH [of ?m1, OF pre] u1
      apply (simp only: call_prologues.simps step option.case fst_conv snd_conv mem)
      apply (simp only: eq)
      apply auto
      done
  qed
qed

text \<open>
  C1, as the code has it. Take a function with an entry block and a reporter
  annotation whose threshold is the 64-bit constant \<open>T\<close>. Then
  \<^verbatim>\<open>addCallInstrumentation\<close> returns a function in which the block labelled
  \<open>fresh_label F\<close> holds the code of the old entry block, and every execution from
  the entry up to that block adds one to the call counter and calls the reporter,
  with the arguments of the annotation, exactly when the counter was \<open>T\<close> before
  the add: the comparison is with the value the atomic add yields, the count
  before the increment. So over \<open>n\<close> executions in a row during which the counter
  does not wrap around, the reporter is called once if the counter goes from \<open>T\<close>
  to \<open>T + 1\<close> in one of them, and not at all otherwise.
\<close>

theorem reporter_fires_on_old_count:
  assumes "fn_blocks F = Entry # rest"
      and "julia_prof_reporter F =
             Some (MDTuple (ConstantAsMetadata (ConstantInt 64 T)
                            # ConstantAsMetadata (ConstantInt w fp) # ArgsMD))"
      and "reporter_args ArgsMD = Inr Args"
      and "2 \<le> fuel"
  shows "\<exists>F1. addCallInstrumentation Name Prof F = Inr F1
          \<and> find (\<lambda>BB. bb_label BB = fresh_label F) (fn_blocks F1)
              = Some (Entry\<lparr> bb_label := fresh_label F \<rparr>)
          \<and> (\<forall>m. call_prologue fuel F1 (fresh_label F) m
                  = Some (m(CallCountCell Name := m (CallCountCell Name) + 1),
                          if m (CallCountCell Name) = T
                          then [PointerCall (IntToPtr (ConstantInt w fp)) Args] else []))
          \<and> (\<forall>m n. unat (m (CallCountCell Name)) + n \<le> 2 ^ 64 \<longrightarrow>
                call_prologues n fuel F1 (fresh_label F) m
                  = Some (m(CallCountCell Name := m (CallCountCell Name) + of_nat n),
                          if unat (m (CallCountCell Name)) \<le> unat T
                             \<and> unat T < unat (m (CallCountCell Name)) + n
                          then [PointerCall (IntToPtr (ConstantInt w fp)) Args] else []))"
proof (intro exI conjI allI impI)
  show "addCallInstrumentation Name Prof F = Inr (instrumented Name Prof F Entry rest T w fp Args)"
    using assms(1-3) by (rule addCallInstrumentation_reporter)
next
  show "find (\<lambda>BB. bb_label BB = fresh_label F)
          (fn_blocks (instrumented Name Prof F Entry rest T w fp Args))
        = Some (Entry\<lparr> bb_label := fresh_label F \<rparr>)"
    using assms(1) by (rule find_tail)
next
  fix m
  show "call_prologue fuel (instrumented Name Prof F Entry rest T w fp Args) (fresh_label F) m
        = Some (m(CallCountCell Name := m (CallCountCell Name) + 1),
                if m (CallCountCell Name) = T
                then [PointerCall (IntToPtr (ConstantInt w fp)) Args] else [])"
    using assms(1,4) by (rule call_prologue_instrumented)
next
  fix m :: memory and n :: nat
  assume "unat (m (CallCountCell Name)) + n \<le> 2 ^ 64"
  then show "call_prologues n fuel (instrumented Name Prof F Entry rest T w fp Args) (fresh_label F) m
        = Some (m(CallCountCell Name := m (CallCountCell Name) + of_nat n),
                if unat (m (CallCountCell Name)) \<le> unat T
                   \<and> unat T < unat (m (CallCountCell Name)) + n
                then [PointerCall (IntToPtr (ConstantInt w fp)) Args] else [])"
    using assms(1,4) by (simp add: call_prologues_instrumented)
qed

text \<open>
  At the example with threshold 1: three executions from a counter at 0 leave it
  at 3 and call the reporter once.
\<close>

theorem reporter_fires_on_old_count_witness:
  "(case addCallInstrumentation ''f'' new_FunctionProfile fn_reported of
      Inl e \<Rightarrow> None
    | Inr F1 \<Rightarrow>
        map_option (\<lambda>r. (fst r (CallCountCell ''f''), snd r))
          (call_prologues 3 2 F1 (fresh_label fn_reported) (\<lambda>c. 0)))
   = Some (3, [PointerCall (IntToPtr (ConstantInt 64 4096)) [Const (ConstantInt 32 7)]])"
proof -
  have b: "fn_blocks fn_reported =
             \<lparr> bb_label = 0, bb_insts = [OtherInst 0], bb_term = OtherTerminator 0,
               bb_weights = None \<rparr> # []"
    by (simp add: fn_reported_def fn_annotated_def fn_plain_def)
  have r: "julia_prof_reporter fn_reported =
             Some (MDTuple (ConstantAsMetadata (ConstantInt 64 1)
                            # ConstantAsMetadata (ConstantInt 64 4096)
                            # [ConstantAsMetadata (ConstantInt 32 7)]))"
    by (simp add: fn_reported_def)
  have a: "reporter_args [ConstantAsMetadata (ConstantInt 32 7)] = Inr [Const (ConstantInt 32 7)]"
    by simp
  have f: "(2::nat) \<le> 2"
    by simp
  from reporter_fires_on_old_count [OF b r a f, of "''f''" new_FunctionProfile]
  obtain F1 where
    i: "addCallInstrumentation ''f'' new_FunctionProfile fn_reported = Inr F1" and
    n: "\<forall>m n. unat (m (CallCountCell ''f'')) + n \<le> 2 ^ 64 \<longrightarrow>
          call_prologues n 2 F1 (fresh_label fn_reported) m
            = Some (m(CallCountCell ''f'' := m (CallCountCell ''f'') + of_nat n),
                    if unat (m (CallCountCell ''f'')) \<le> unat (1 :: u64)
                       \<and> unat (1 :: u64) < unat (m (CallCountCell ''f'')) + n
                    then [PointerCall (IntToPtr (ConstantInt 64 4096)) [Const (ConstantInt 32 7)]]
                    else [])"
    by blast
  have "unat ((\<lambda>c. 0 :: u64) (CallCountCell ''f'')) + 3 \<le> 2 ^ 64"
    by simp
  with n [rule_format, of "\<lambda>c. 0" 3]
  have "call_prologues 3 2 F1 (fresh_label fn_reported) (\<lambda>c. 0)
          = Some ((\<lambda>c. 0)(CallCountCell ''f'' := 3),
                  [PointerCall (IntToPtr (ConstantInt 64 4096)) [Const (ConstantInt 32 7)]])"
    by simp
  then show ?thesis
    by (simp add: i)
qed

text \<open>
  Against C1 as it is stated, at the same example (threshold 1). The execution
  that takes the counter from 0 to 1, the threshold, does not call the reporter;
  the next one, which takes it from 1 to 2, does.
\<close>

theorem reporter_silent_on_transition_to_threshold:
  "(case addCallInstrumentation ''f'' new_FunctionProfile fn_reported of
      Inl e \<Rightarrow> None
    | Inr F1 \<Rightarrow>
        map_option (\<lambda>r. (fst r (CallCountCell ''f''), snd r))
          (call_prologue 2 F1 (fresh_label fn_reported) (\<lambda>c. 0)))
   = Some (1, [])
   \<and> (case addCallInstrumentation ''f'' new_FunctionProfile fn_reported of
        Inl e \<Rightarrow> None
      | Inr F1 \<Rightarrow>
          map_option (\<lambda>r. (fst r (CallCountCell ''f''), snd r))
            (call_prologue 2 F1 (fresh_label fn_reported) (\<lambda>c. 1)))
     = Some (2, [PointerCall (IntToPtr (ConstantInt 64 4096)) [Const (ConstantInt 32 7)]])"
  by code_simp

end
